theory Spec2Isabelle
  imports Complex_Main
begin

section \<open>Python values\<close>

text \<open>
  A Python \<open>str\<close> is modelled as a \<open>string\<close>: one \<open>char\<close> per character, which covers
  the texts whose characters have code points below 256.

  A Python \<open>float\<close> is the rational number it denotes, or one of the three special
  values. The sign of a zero is not kept (\<open>-0.0\<close> and \<open>0.0\<close> are both \<open>Fin 0\<close>; they are
  equal and equally false in Python).
\<close>

datatype pyfloat = Fin rat | PosInf | NegInf | NaN

text \<open>
  The values \<open>json.loads\<close> can return, which are also the values the fields of a grading
  result can hold. A \<open>dict\<close> is an association list in insertion order, its keys distinct.
\<close>

datatype pyval =
    PNone
  | PBool bool
  | PInt int
  | PFloat pyfloat
  | PStr string
  | PList "pyval list"
  | PDict "(string \<times> pyval) list"

text \<open>The exceptions that the modelled code can raise and does not catch.\<close>

datatype exn =
    TypeError
  | AttributeError
  | OverflowError
  | KeyError string
  | ValueError string
  | ConnectionError string

text \<open>Truth value testing, as \<open>if x\<close> and \<open>not x\<close> and \<open>x or y\<close> do it.\<close>

fun truthy :: "pyval \<Rightarrow> bool" where
  "truthy PNone = False"
| "truthy (PBool b) = b"
| "truthy (PInt n) = (n \<noteq> 0)"
| "truthy (PFloat f) = (f \<noteq> Fin 0)"
| "truthy (PStr s) = (s \<noteq> [])"
| "truthy (PList xs) = (xs \<noteq> [])"
| "truthy (PDict d) = (d \<noteq> [])"

subsection \<open>Binary64 arithmetic\<close>

text \<open>\<open>ilog2 n\<close> is the position of the highest set bit of \<open>n\<close>.\<close>

function ilog2 :: "int \<Rightarrow> int" where
  "ilog2 n = (if n < 2 then 0 else 1 + ilog2 (n div 2))"
  by pat_completeness auto
termination
  by (relation "measure nat") auto

declare ilog2.simps [simp del]

definition pow2 :: "int \<Rightarrow> rat" where
  "pow2 e = (if 0 \<le> e then 2 ^ nat e else 1 / 2 ^ nat (- e))"

text \<open>
  The binary exponent of a positive rational: \<open>pow2 (flog2 x) \<le> x < pow2 (flog2 x + 1)\<close>.
\<close>

definition flog2 :: "rat \<Rightarrow> int" where
  "flog2 x = (if 1 \<le> x then ilog2 \<lfloor>x\<rfloor> else - 1 - ilog2 (\<lceil>1 / x\<rceil> - 1))"

definition round_half_even :: "rat \<Rightarrow> int" where
  "round_half_even m =
     (let f = \<lfloor>m\<rfloor>; d = m - of_int f
      in if d < 1 / 2 then f else if 1 / 2 < d then f + 1 else if even f then f else f + 1)"

text \<open>
  Rounding of an exact result to the nearest binary64 number, ties to even: 53 bits of
  precision, the smallest unit \<open>pow2 (- 1074)\<close>, overflow to an infinity when the rounded
  value reaches \<open>pow2 1024\<close>.
\<close>

definition round_b64 :: "rat \<Rightarrow> pyfloat" where
  "round_b64 a =
     (if a = 0 then Fin 0
      else
        let x = \<bar>a\<bar>;
            q = max (flog2 x - 52) (- 1074);
            r = of_int (round_half_even (x / pow2 q)) * pow2 q
        in if 1024 \<le> flog2 r then (if 0 < a then PosInf else NegInf)
           else Fin (if 0 < a then r else - r))"

text \<open>\<open>float(n)\<close> of an \<open>int\<close>, as the arithmetic operators convert an \<open>int\<close> operand.\<close>

definition float_of_int :: "int \<Rightarrow> exn + pyfloat" where
  "float_of_int n =
     (case round_b64 (of_int n) of Fin r \<Rightarrow> Inr (Fin r) | _ \<Rightarrow> Inl OverflowError)"

text \<open>The operand of \<open>/\<close> and \<open>*\<close> as a float; \<open>bool\<close> is a subclass of \<open>int\<close>.\<close>

fun num_as_float :: "pyval \<Rightarrow> exn + pyfloat" where
  "num_as_float (PBool b) = Inr (Fin (if b then 1 else 0))"
| "num_as_float (PInt n) = float_of_int n"
| "num_as_float (PFloat f) = Inr f"
| "num_as_float _ = Inl TypeError"

text \<open>\<open>x / 100.0\<close> and \<open>x * 100\<close> on a float \<open>x\<close>.\<close>

fun div_100 :: "pyfloat \<Rightarrow> pyfloat" where
  "div_100 (Fin a) = round_b64 (a / 100)"
| "div_100 x = x"

fun mul_100 :: "pyfloat \<Rightarrow> pyfloat" where
  "mul_100 (Fin a) = round_b64 (a * 100)"
| "mul_100 x = x"

subsection \<open>Decimal numerals\<close>

definition isdigit :: "char \<Rightarrow> bool" where
  "isdigit c = (48 \<le> (of_char c :: nat) \<and> (of_char c :: nat) \<le> 57)"

definition digit_val :: "char \<Rightarrow> int" where
  "digit_val c = of_char c - 48"

text \<open>The number a run of digits denotes, continuing from \<open>acc\<close>.\<close>

fun digits_val :: "int \<Rightarrow> string \<Rightarrow> int" where
  "digits_val acc [] = acc"
| "digits_val acc (c # cs) = digits_val (10 * acc + digit_val c) cs"

text \<open>
  \<open>float(s)\<close> for a text \<open>s\<close> of the form digits, or digits \<open>.\<close> digits (either part after
  the first may be empty): the only texts the score patterns capture. The conversion is
  correctly rounded.
\<close>

definition float_of_decimal :: "string \<Rightarrow> pyfloat" where
  "float_of_decimal s =
     (let ip = takeWhile isdigit s;
          fp = drop 1 (dropWhile isdigit s)
      in round_b64 (of_int (digits_val 0 ip) + of_int (digits_val 0 fp) / 10 ^ length fp))"

text \<open>\<open>str(n)\<close> of an \<open>int\<close>.\<close>

fun str_nat :: "nat \<Rightarrow> string" where
  "str_nat n =
     (if n < 10 then [''0123456789'' ! n]
      else str_nat (n div 10) @ [''0123456789'' ! (n mod 10)])"

declare str_nat.simps [simp del]

definition str_int :: "int \<Rightarrow> string" where
  "str_int i = (if i < 0 then CHR ''-'' # str_nat (nat (- i)) else str_nat (nat i))"

section \<open>String operations\<close>

text \<open>\<open>str.isspace\<close> of a character, which is also the class \<open>\s\<close> of \<open>re\<close>.\<close>

definition isspace :: "char \<Rightarrow> bool" where
  "isspace c = ((of_char c :: nat) \<in> {9, 10, 11, 12, 13, 28, 29, 30, 31, 32, 133, 160})"

definition strip :: "string \<Rightarrow> string" where
  "strip s = rev (dropWhile isspace (rev (dropWhile isspace s)))"

definition startswith :: "'a list \<Rightarrow> 'a list \<Rightarrow> bool" where
  "startswith s p = (take (length p) s = p)"

text \<open>The least and the greatest index at which \<open>sub\<close> occurs in a text.\<close>

fun find_idx :: "'a list \<Rightarrow> 'a list \<Rightarrow> nat option" where
  "find_idx sub [] = (if sub = [] then Some 0 else None)"
| "find_idx sub (x # xs) =
     (if startswith (x # xs) sub then Some 0 else map_option Suc (find_idx sub xs))"

fun rfind_idx :: "'a list \<Rightarrow> 'a list \<Rightarrow> nat option" where
  "rfind_idx sub [] = (if sub = [] then Some 0 else None)"
| "rfind_idx sub (x # xs) =
     (case rfind_idx sub xs of
        Some i \<Rightarrow> Some (Suc i)
      | None \<Rightarrow> if startswith (x # xs) sub then Some 0 else None)"

text \<open>\<open>sub in s\<close>, \<open>s.find(sub, start)\<close> and \<open>s.rfind(sub)\<close>; not found is \<open>-1\<close>.\<close>

definition contains :: "'a list \<Rightarrow> 'a list \<Rightarrow> bool" where
  "contains s sub = (find_idx sub s \<noteq> None)"

definition find :: "'a list \<Rightarrow> 'a list \<Rightarrow> nat \<Rightarrow> int" where
  "find s sub start =
     (if length s < start then - 1
      else case find_idx sub (drop start s) of None \<Rightarrow> - 1 | Some i \<Rightarrow> int (start + i))"

definition rfind :: "'a list \<Rightarrow> 'a list \<Rightarrow> int" where
  "rfind s sub = (case rfind_idx sub s of None \<Rightarrow> - 1 | Some i \<Rightarrow> int i)"

text \<open>
  \<open>s[i:j]\<close>: a negative bound counts from the end, and every bound is clipped to the
  text; the slice is empty when the bounds cross.
\<close>

definition slice_bound :: "nat \<Rightarrow> int \<Rightarrow> nat" where
  "slice_bound n i = (if i < 0 then nat (i + int n) else min n (nat i))"

definition slice :: "'a list \<Rightarrow> int \<Rightarrow> int \<Rightarrow> 'a list" where
  "slice s i j =
     (let a = slice_bound (length s) i; b = slice_bound (length s) j
      in take (b - a) (drop a s))"

section \<open>Regular expressions\<close>

text \<open>
  The patterns of the engine are sequences of single-character items, each with a
  quantifier, some of them inside the one capture group. \<open>rmatch\<close> is the backtracking
  matcher of \<open>re\<close> on such a pattern, anchored at the start of the text: a quantified item
  first takes as much as it can and gives back on failure. The result is the text of the
  group in the first match found.
\<close>

datatype quant = Once | Opt | Star | Plus

type_synonym item = "(char \<Rightarrow> bool) \<times> quant \<times> bool"

definition capture :: "bool \<Rightarrow> string \<Rightarrow> char \<Rightarrow> string" where
  "capture g cap c = (if g then cap @ [c] else cap)"

fun rmatch :: "item list \<Rightarrow> string \<Rightarrow> string \<Rightarrow> string option" where
  "rmatch [] cap s = Some cap"
| "rmatch ((p, Once, g) # its) cap [] = None"
| "rmatch ((p, Once, g) # its) cap (c # cs) =
     (if p c then rmatch its (capture g cap c) cs else None)"
| "rmatch ((p, Opt, g) # its) cap [] = rmatch its cap []"
| "rmatch ((p, Opt, g) # its) cap (c # cs) =
     (case (if p c then rmatch its (capture g cap c) cs else None) of
        Some r \<Rightarrow> Some r
      | None \<Rightarrow> rmatch its cap (c # cs))"
| "rmatch ((p, Star, g) # its) cap [] = rmatch its cap []"
| "rmatch ((p, Star, g) # its) cap (c # cs) =
     (case (if p c then rmatch ((p, Star, g) # its) (capture g cap c) cs else None) of
        Some r \<Rightarrow> Some r
      | None \<Rightarrow> rmatch its cap (c # cs))"
| "rmatch ((p, Plus, g) # its) cap [] = None"
| "rmatch ((p, Plus, g) # its) cap (c # cs) =
     (if p c then rmatch ((p, Star, g) # its) (capture g cap c) cs else None)"

text \<open>\<open>re.search\<close>: the match at the leftmost position that has one.\<close>

fun re_search :: "item list \<Rightarrow> string \<Rightarrow> string option" where
  "re_search its [] = rmatch its [] []"
| "re_search its (c # cs) =
     (case rmatch its [] (c # cs) of Some r \<Rightarrow> Some r | None \<Rightarrow> re_search its cs)"

definition lit :: "string \<Rightarrow> item list" where
  "lit s = map (\<lambda>c. ((=) c, Once, False)) s"

text \<open>The pattern \<open>PREFIX\s*(\d+)/100\<close>.\<close>

definition score_pattern :: "string \<Rightarrow> item list" where
  "score_pattern pre = lit pre @ [(isspace, Star, False), (isdigit, Plus, True)] @ lit ''/100''"

definition score_patterns :: "item list list" where
  "score_patterns =
     [score_pattern ''TOTAL:'', score_pattern ''Total:'',
      score_pattern ''Score:'', score_pattern ''Grade:'']"

text \<open>The pattern \<open>(\d+\.?\d*)%\<close>.\<close>

definition percent_pattern :: "item list" where
  "percent_pattern =
     [(isdigit, Plus, True), ((=) CHR ''.'', Opt, True), (isdigit, Star, True),
      ((=) CHR ''%'', Once, False)]"

section \<open>The JSON decoder\<close>

text \<open>
  \<open>json.loads\<close> is library code, and the functions of the client and of the engine take
  it as an argument. \<open>json_decode\<close> is a model of it for evaluation on concrete documents:
  the grammar \<open>json.loads\<close> accepts with its default settings (the literals \<open>NaN\<close>,
  \<open>Infinity\<close> and \<open>-Infinity\<close> included, control characters inside strings refused, of
  two members with one key the later one kept), the values it builds, and \<open>None\<close> where
  it raises \<open>JSONDecodeError\<close>. The text of the exception is not modelled. An escape
  \<open>\uXXXX\<close> above \<open>00FF\<close> denotes a character outside \<open>char\<close>; a document with one is
  outside the model, and \<open>json_decode\<close> gives \<open>None\<close> for it.
\<close>

datatype token = LBrace | RBrace | LBracket | RBracket | Comma | Colon | Scalar pyval

definition json_ws :: "char \<Rightarrow> bool" where
  "json_ws c = ((of_char c :: nat) \<in> {32, 9, 10, 13})"

definition hexval :: "char \<Rightarrow> nat option" where
  "hexval c =
     (let n = (of_char c :: nat)
      in if 48 \<le> n \<and> n \<le> 57 then Some (n - 48)
         else if 97 \<le> n \<and> n \<le> 102 then Some (n - 87)
         else if 65 \<le> n \<and> n \<le> 70 then Some (n - 55)
         else None)"

definition hex4 :: "string \<Rightarrow> nat option" where
  "hex4 s =
     (case map hexval (take 4 s) of
        [Some a, Some b, Some c, Some d] \<Rightarrow> Some (((a * 16 + b) * 16 + c) * 16 + d)
      | _ \<Rightarrow> None)"

definition unescape :: "char \<Rightarrow> char option" where
  "unescape c =
     (if c = CHR 0x22 \<or> c = CHR 0x5C \<or> c = CHR ''/'' then Some c
      else if c = CHR ''b'' then Some (CHR 0x08)
      else if c = CHR ''f'' then Some (CHR 0x0C)
      else if c = CHR ''n'' then Some (CHR 0x0A)
      else if c = CHR ''r'' then Some (CHR 0x0D)
      else if c = CHR ''t'' then Some (CHR 0x09)
      else None)"

text \<open>
  The string that starts after an opening quote: its characters, and how many characters
  of the document it takes, the closing quote included.
\<close>

fun scan_string :: "string \<Rightarrow> string \<Rightarrow> nat \<Rightarrow> (string \<times> nat) option" where
  "scan_string [] acc n = None"
| "scan_string (c # cs) acc n =
     (if c = CHR 0x22 then Some (acc, Suc n)
      else if c = CHR 0x5C then
        (case cs of
           [] \<Rightarrow> None
         | e # es \<Rightarrow>
             if e = CHR ''u'' then
               (case hex4 es of
                  None \<Rightarrow> None
                | Some u \<Rightarrow>
                    if u < 256 then scan_string (drop 4 es) (acc @ [char_of u]) (n + 6)
                    else None)
             else
               (case unescape e of
                  None \<Rightarrow> None
                | Some x \<Rightarrow> scan_string es (acc @ [x]) (n + 2)))
      else if (of_char c :: nat) < 32 then None
      else scan_string cs (acc @ [c]) (Suc n))"

text \<open>
  A number at the start of a text, as the pattern
  \<open>(-?(?:0|[1-9]\d*))(\.\d+)?([eE][-+]?\d+)?\<close> matches it: an \<open>int\<close> when there is neither
  a fraction nor an exponent, else the correctly rounded \<open>float\<close>.
\<close>

definition scan_number :: "string \<Rightarrow> (pyval \<times> nat) option" where
  "scan_number s =
     (let neg = startswith s ''-'';
          s1 = (if neg then drop 1 s else s);
          ip = (if startswith s1 ''0'' then ''0'' else takeWhile isdigit s1)
      in if ip = [] then None
         else
           let s2 = drop (length ip) s1;
               fd = (if startswith s2 ''.'' then takeWhile isdigit (drop 1 s2) else []);
               s3 = (if fd = [] then s2 else drop (Suc (length fd)) s2);
               has_e = (startswith s3 ''e'' \<or> startswith s3 ''E'');
               s4 = drop 1 s3;
               eneg = startswith s4 ''-'';
               esign = (eneg \<or> startswith s4 ''+'');
               ed = (if has_e then takeWhile isdigit (if esign then drop 1 s4 else s4) else []);
               used = (if neg then 1 else 0) + length ip
                      + (if fd = [] then 0 else Suc (length fd))
                      + (if ed = [] then 0 else Suc ((if esign then 1 else 0) + length ed));
               m = of_int (digits_val 0 ip) + of_int (digits_val 0 fd) / 10 ^ length fd;
               x = (if eneg then m / 10 ^ nat (digits_val 0 ed) else m * 10 ^ nat (digits_val 0 ed))
           in if fd = [] \<and> ed = []
              then Some (PInt (if neg then - digits_val 0 ip else digits_val 0 ip), used)
              else Some (PFloat (round_b64 (if neg then - x else x)), used))"

definition scan_scalar :: "string \<Rightarrow> (pyval \<times> nat) option" where
  "scan_scalar s =
     (if startswith s ''null'' then Some (PNone, 4)
      else if startswith s ''true'' then Some (PBool True, 4)
      else if startswith s ''false'' then Some (PBool False, 5)
      else case scan_number s of
             Some r \<Rightarrow> Some r
           | None \<Rightarrow>
               if startswith s ''NaN'' then Some (PFloat NaN, 3)
               else if startswith s ''Infinity'' then Some (PFloat PosInf, 8)
               else if startswith s ''-Infinity'' then Some (PFloat NegInf, 9)
               else None)"

text \<open>The tokens of a document.\<close>

fun lex :: "string \<Rightarrow> token list option" where
  "lex [] = Some []"
| "lex (c # cs) =
     (if json_ws c then lex cs
      else if c = CHR ''{'' then map_option ((#) LBrace) (lex cs)
      else if c = CHR ''}'' then map_option ((#) RBrace) (lex cs)
      else if c = CHR ''['' then map_option ((#) LBracket) (lex cs)
      else if c = CHR '']'' then map_option ((#) RBracket) (lex cs)
      else if c = CHR '','' then map_option ((#) Comma) (lex cs)
      else if c = CHR '':'' then map_option ((#) Colon) (lex cs)
      else if c = CHR 0x22 then
        (case scan_string cs [] 0 of
           None \<Rightarrow> None
         | Some (str, n) \<Rightarrow> map_option ((#) (Scalar (PStr str))) (lex (drop n cs)))
      else
        (case scan_scalar (c # cs) of
           None \<Rightarrow> None
         | Some (v, n) \<Rightarrow> map_option ((#) (Scalar v)) (lex (drop (n - 1) cs))))"

text \<open>
  The parser: a stack of the containers that are open, and what may come next. A member
  whose key is already in the dictionary replaces the value there.
\<close>

datatype frame = InArray "pyval list" | InObject "(string \<times> pyval) list" "string option"

datatype expect = Value | ValueOrClose | KeyOrClose | Key | ColonNext | CommaOrClose | Finished pyval

fun dict_set :: "(string \<times> pyval) list \<Rightarrow> string \<Rightarrow> pyval \<Rightarrow> (string \<times> pyval) list" where
  "dict_set [] k v = [(k, v)]"
| "dict_set ((k', v') # d) k v = (if k' = k then (k', v) # d else (k', v') # dict_set d k v)"

fun put_value :: "frame list \<Rightarrow> pyval \<Rightarrow> (frame list \<times> expect) option" where
  "put_value [] v = Some ([], Finished v)"
| "put_value (InArray xs # st) v = Some (InArray (xs @ [v]) # st, CommaOrClose)"
| "put_value (InObject d (Some k) # st) v = Some (InObject (dict_set d k v) None # st, CommaOrClose)"
| "put_value (InObject d None # st) v = None"

fun step :: "frame list \<times> expect \<Rightarrow> token \<Rightarrow> (frame list \<times> expect) option" where
  "step (st, e) (Scalar v) =
     (if e = Value \<or> e = ValueOrClose then put_value st v
      else if e = KeyOrClose \<or> e = Key then
        (case (v, st) of
           (PStr k, InObject d None # st') \<Rightarrow> Some (InObject d (Some k) # st', ColonNext)
         | _ \<Rightarrow> None)
      else None)"
| "step (st, e) LBracket =
     (if e = Value \<or> e = ValueOrClose then Some (InArray [] # st, ValueOrClose) else None)"
| "step (st, e) LBrace =
     (if e = Value \<or> e = ValueOrClose then Some (InObject [] None # st, KeyOrClose) else None)"
| "step (st, e) RBracket =
     (if e = ValueOrClose \<or> e = CommaOrClose then
        (case st of InArray xs # st' \<Rightarrow> put_value st' (PList xs) | _ \<Rightarrow> None)
      else None)"
| "step (st, e) RBrace =
     (if e = KeyOrClose \<or> e = CommaOrClose then
        (case st of InObject d None # st' \<Rightarrow> put_value st' (PDict d) | _ \<Rightarrow> None)
      else None)"
| "step (st, e) Comma =
     (if e = CommaOrClose then
        (case st of
           InArray xs # st' \<Rightarrow> Some (st, Value)
         | InObject d None # st' \<Rightarrow> Some (st, Key)
         | _ \<Rightarrow> None)
      else None)"
| "step (st, e) Colon = (if e = ColonNext then Some (st, Value) else None)"

fun run :: "token list \<Rightarrow> frame list \<times> expect \<Rightarrow> (frame list \<times> expect) option" where
  "run [] q = Some q"
| "run (t # ts) q = (case step q t of None \<Rightarrow> None | Some q' \<Rightarrow> run ts q')"

definition json_decode :: "string \<Rightarrow> pyval option" where
  "json_decode s =
     (case lex s of
        None \<Rightarrow> None
      | Some ts \<Rightarrow>
          (case run ts ([], Value) of
             Some (st, Finished v) \<Rightarrow> Some v
           | _ \<Rightarrow> None))"

text \<open>
  \<open>json.loads\<close> as the client takes it: \<open>msg s\<close> is the text \<open>str(e)\<close> of the exception
  raised for the document \<open>s\<close>.
\<close>

definition json_loads :: "(string \<Rightarrow> string) \<Rightarrow> string \<Rightarrow> string + pyval" where
  "json_loads msg s = (case json_decode s of Some v \<Rightarrow> Inr v | None \<Rightarrow> Inl (msg s))"

section \<open>The provider client\<close>

text \<open>\<open>GradingResponse\<close>: what the client returns for one prompt.\<close>

record GradingResponse =
  rsp_success :: bool
  rsp_grade :: pyval
  rsp_percentage :: pyval
  rsp_feedback :: pyval
  raw_response :: string
  rsp_processing_time :: pyfloat
  rsp_error_message :: "string option"

definition fence :: string where
  "fence = ''```''"

definition fence_json :: string where
  "fence_json = ''```json''"

definition lang_tag :: string where
  "lang_tag = ''json'' @ [CHR 0x0A]"

text \<open>
  \<open>MultiModelClient.parse_json_response\<close>. \<open>json.loads\<close> is the first argument: it
  returns the decoded value, or raises \<open>JSONDecodeError\<close>, which is \<open>Inl\<close> of the text
  \<open>str(e)\<close> of the exception.
\<close>

definition parse_json_response :: "(string \<Rightarrow> string + pyval) \<Rightarrow> string \<Rightarrow> pyval" where
  "parse_json_response loads response_text =
     (let json_str =
            (if contains response_text fence_json then
               let start = find response_text fence_json 0 + 7;
                   stop = find response_text fence (nat start)
               in strip (slice response_text start stop)
             else if contains response_text fence then
               let start = find response_text fence 0 + 3;
                   stop = rfind response_text fence
               in strip (slice response_text start stop)
             else strip response_text);
          json_str = (if startswith json_str lang_tag then drop 5 json_str else json_str)
      in case loads json_str of
           Inr v \<Rightarrow> v
         | Inl e \<Rightarrow>
             PDict [(''error'', PStr (''Invalid JSON response: '' @ e)),
                    (''raw_response'', PStr response_text)])"



text \<open>The constructor with the defaults of the dataclass.\<close>

definition GradingResponse_default :: "bool \<Rightarrow> GradingResponse" where
  "GradingResponse_default ok =
     \<lparr> rsp_success = ok, rsp_grade = PNone, rsp_percentage = PNone, rsp_feedback = PNone,
       raw_response = [], rsp_processing_time = Fin 0, rsp_error_message = None \<rparr>"

record MultiModelClient =
  api_key :: string
  model :: string
  provider :: string





text \<open>
  The world outside: \<open>post c prompt w\<close> is \<open>requests.post\<close> with the request the client
  \<open>c\<close> builds for \<open>prompt\<close>, in the state \<open>w\<close> of the world. It raises (\<open>Inl\<close> of the
  text \<open>str(e)\<close> of the exception) or returns the response. Of a response the client
  reads the status code, the text (\<open>body\<close>), and the completion inside the JSON body, at the path
  of the provider: \<open>completion\<close> is \<open>Inl\<close> of \<open>str(e)\<close> when decoding the body or
  following the path raises. \<open>elapsed w\<close> is \<open>time.time() - start_time\<close>.
\<close>

record http_response =
  status_code :: int
  body :: string
  completion :: "string + string"

record 'w world =
  post :: "MultiModelClient \<Rightarrow> string \<Rightarrow> 'w \<Rightarrow> (string + http_response) \<times> 'w"
  elapsed :: "'w \<Rightarrow> pyfloat"

text \<open>
  \<open>_call_openai\<close>, \<open>_call_anthropic\<close>, \<open>_call_groq\<close> and \<open>_call_gemini\<close>, which differ in
  the request, in the path of the completion, and in the name in the error message.
\<close>

definition call_api ::
  "'w world \<Rightarrow> string \<Rightarrow> MultiModelClient \<Rightarrow> string \<Rightarrow> 'w \<Rightarrow> (string + GradingResponse) \<times> 'w" where
  "call_api io name c prompt w =
     (case post io c prompt w of
        (Inl e, w') \<Rightarrow> (Inl e, w')
      | (Inr response, w') \<Rightarrow>
          let t = elapsed io w' in
          if status_code response = 200 then
            (case completion response of
               Inl e \<Rightarrow> (Inl e, w')
             | Inr content \<Rightarrow>
                 (Inr ((GradingResponse_default True)
                        \<lparr> raw_response := content, rsp_processing_time := t \<rparr>), w'))
          else
            (Inr ((GradingResponse_default False)
                   \<lparr> rsp_error_message :=
                       Some (name @ '' API error: '' @ str_int (status_code response)
                             @ '' - '' @ body response),
                     rsp_processing_time := t \<rparr>), w'))"

text \<open>\<open>MultiModelClient.evaluate_code\<close>: every exception of the call is caught.\<close>

definition evaluate_code ::
  "'w world \<Rightarrow> MultiModelClient \<Rightarrow> string \<Rightarrow> 'w \<Rightarrow> GradingResponse \<times> 'w" where
  "evaluate_code io c prompt w =
     (let name =
            (if provider c = ''openai'' then Some ''OpenAI''
             else if provider c = ''anthropic'' then Some ''Anthropic''
             else if provider c = ''gemini'' then Some ''Gemini''
             else if provider c = ''groq'' then Some ''Groq''
             else None)
      in case name of
           None \<Rightarrow>
             ((GradingResponse_default False)
                \<lparr> rsp_error_message := Some (''Unsupported provider: '' @ provider c),
                  rsp_processing_time := elapsed io w \<rparr>, w)
         | Some n \<Rightarrow>
             (case call_api io n c prompt w of
                (Inr r, w') \<Rightarrow> (r, w')
              | (Inl e, w') \<Rightarrow>
                  ((GradingResponse_default False)
                     \<lparr> rsp_error_message :=
                         Some (''Error calling '' @ provider c @ '' API: '' @ e),
                       rsp_processing_time := elapsed io w' \<rparr>, w')))"



section \<open>The grading engine\<close>

record GradingResult =
  student_id :: string
  problem :: string
  code :: string
  success :: bool
  grade :: pyval
  percentage :: pyval
  feedback :: pyval
  issues :: pyval
  recommendations :: pyval
  strengths :: pyval
  processing_time :: pyfloat
  error_message :: "string option"

text \<open>The constructor with the defaults of the dataclass.\<close>

definition GradingResult_default :: "string \<Rightarrow> string \<Rightarrow> string \<Rightarrow> bool \<Rightarrow> GradingResult" where
  "GradingResult_default sid prob cd ok =
     \<lparr> student_id = sid, problem = prob, code = cd, success = ok,
       grade = PNone, percentage = PNone, feedback = PNone,
       issues = PNone, recommendations = PNone, strengths = PNone,
       processing_time = Fin 0, error_message = None \<rparr>"

text \<open>\<open>key in parsed\<close>, \<open>parsed[key]\<close> and \<open>parsed.get(key, default)\<close> on any value.\<close>

fun py_in :: "string \<Rightarrow> pyval \<Rightarrow> exn + bool" where
  "py_in k (PDict d) = Inr (k \<in> set (map fst d))"
| "py_in k (PStr s) = Inr (contains s k)"
| "py_in k (PList xs) = Inr (PStr k \<in> set xs)"
| "py_in k _ = Inl TypeError"

fun subscript :: "pyval \<Rightarrow> string \<Rightarrow> exn + pyval" where
  "subscript (PDict d) k = (case map_of d k of Some v \<Rightarrow> Inr v | None \<Rightarrow> Inl (KeyError k))"
| "subscript _ k = Inl TypeError"

fun get :: "pyval \<Rightarrow> string \<Rightarrow> pyval \<Rightarrow> exn + pyval" where
  "get (PDict d) k dflt = Inr (case map_of d k of Some v \<Rightarrow> v | None \<Rightarrow> dflt)"
| "get _ k dflt = Inl AttributeError"

text \<open>
  A value inside an f-string: a \<open>str\<close> is itself, any other value is formatted by the
  built-in \<open>str_of\<close>.
\<close>

definition format_value :: "(pyval \<Rightarrow> string) \<Rightarrow> pyval \<Rightarrow> string" where
  "format_value str_of v = (case v of PStr s \<Rightarrow> s | _ \<Rightarrow> str_of v)"

text \<open>The failed result both JSON parsers build when the sentinel key is present.\<close>

definition parsing_error_result ::
  "(pyval \<Rightarrow> string) \<Rightarrow> string \<Rightarrow> string \<Rightarrow> string \<Rightarrow> GradingResponse \<Rightarrow> pyval \<Rightarrow> GradingResult" where
  "parsing_error_result str_of sid prob cd response v =
     (GradingResult_default sid prob cd False)
       \<lparr> processing_time := rsp_processing_time response,
         error_message := Some (''JSON parsing error: '' @ format_value str_of v) \<rparr>"

text \<open>The default of \<open>percentage\<close>: \<open>(grade / 100.0 * 100) if grade else 0\<close>.\<close>

definition percentage_default :: "pyval \<Rightarrow> exn + pyval" where
  "percentage_default g =
     (if truthy g then
        (case num_as_float g of
           Inl e \<Rightarrow> Inl e
         | Inr x \<Rightarrow> Inr (PFloat (mul_100 (div_100 x))))
      else Inr (PInt 0))"

text \<open>\<open>GradingEngine._parse_json_result\<close>.\<close>

definition parse_json_result ::
  "(string \<Rightarrow> string + pyval) \<Rightarrow> (pyval \<Rightarrow> string) \<Rightarrow>
   string \<Rightarrow> string \<Rightarrow> string \<Rightarrow> GradingResponse \<Rightarrow> exn + GradingResult" where
  "parse_json_result loads str_of sid prob cd response =
     (let parsed = parse_json_response loads (raw_response response) in
      case py_in ''error'' parsed of
        Inl e \<Rightarrow> Inl e
      | Inr True \<Rightarrow>
          (case subscript parsed ''error'' of
             Inl e \<Rightarrow> Inl e
           | Inr v \<Rightarrow> Inr (parsing_error_result str_of sid prob cd response v))
      | Inr False \<Rightarrow>
          (case get parsed ''total_score'' (PInt 0) of
             Inl e \<Rightarrow> Inl e
           | Inr g \<Rightarrow>
          (case percentage_default g of
             Inl e \<Rightarrow> Inl e
           | Inr dflt \<Rightarrow>
          (case get parsed ''percentage'' dflt of
             Inl e \<Rightarrow> Inl e
           | Inr pct \<Rightarrow>
          (case get parsed ''issues'' (PList []) of
             Inl e \<Rightarrow> Inl e
           | Inr iss \<Rightarrow>
          (case get parsed ''recommendations'' (PList []) of
             Inl e \<Rightarrow> Inl e
           | Inr recs \<Rightarrow>
          (case get parsed ''strengths'' (PList []) of
             Inl e \<Rightarrow> Inl e
           | Inr strs \<Rightarrow>
               Inr ((GradingResult_default sid prob cd True)
                     \<lparr> grade := g, percentage := pct, feedback := parsed,
                       issues := iss, recommendations := recs, strengths := strs,
                       processing_time := rsp_processing_time response \<rparr>))))))))"

text \<open>\<open>GradingEngine._parse_simple_result\<close>.\<close>

definition parse_simple_result ::
  "(string \<Rightarrow> string + pyval) \<Rightarrow> (pyval \<Rightarrow> string) \<Rightarrow>
   string \<Rightarrow> string \<Rightarrow> string \<Rightarrow> GradingResponse \<Rightarrow> exn + GradingResult" where
  "parse_simple_result loads str_of sid prob cd response =
     (let parsed = parse_json_response loads (raw_response response) in
      case py_in ''error'' parsed of
        Inl e \<Rightarrow> Inl e
      | Inr True \<Rightarrow>
          (case subscript parsed ''error'' of
             Inl e \<Rightarrow> Inl e
           | Inr v \<Rightarrow> Inr (parsing_error_result str_of sid prob cd response v))
      | Inr False \<Rightarrow>
          (case get parsed ''is_correct'' (PBool False) of
             Inl e \<Rightarrow> Inl e
           | Inr is_correct \<Rightarrow>
          (case get parsed ''hints'' (PList []) of
             Inl e \<Rightarrow> Inl e
           | Inr hints \<Rightarrow>
               let g = PFloat (Fin (if truthy is_correct then 100
                                    else if \<not> truthy hints then 50 else 25))
               in Inr ((GradingResult_default sid prob cd True)
                        \<lparr> grade := g, percentage := g, feedback := parsed, issues := hints,
                          processing_time := rsp_processing_time response \<rparr>))))"

text \<open>
  The loop over \<open>score_patterns\<close> of \<open>_parse_text_result\<close>: the first pattern that is
  found gives the grade and ends the loop; \<open>PNone\<close> when no pattern is found.
\<close>

fun first_score :: "item list list \<Rightarrow> string \<Rightarrow> pyval" where
  "first_score [] text = PNone"
| "first_score (p # ps) text =
     (case re_search p text of
        Some m \<Rightarrow> PFloat (float_of_decimal m)
      | None \<Rightarrow> first_score ps text)"

text \<open>\<open>GradingEngine._parse_text_result\<close>.\<close>

definition parse_text_result ::
  "string \<Rightarrow> string \<Rightarrow> string \<Rightarrow> GradingResponse \<Rightarrow> GradingResult" where
  "parse_text_result sid prob cd response =
     (let text = raw_response response;
          g = first_score score_patterns text;
          g = (if g = PNone then
                 (case re_search percent_pattern text of
                    Some m \<Rightarrow> PFloat (float_of_decimal m)
                  | None \<Rightarrow> g)
               else g);
          pct = (if g \<noteq> PNone then g else PFloat (Fin 0))
      in (GradingResult_default sid prob cd True)
           \<lparr> grade := g, percentage := pct, feedback := PDict [(''raw_text'', PStr text)],
             processing_time := rsp_processing_time response \<rparr>)"

text \<open>
  The part of \<open>GradingEngine.grade_code\<close> that follows the call of the client: the
  short cut on a failed response, then the parser of the evaluation type.
\<close>

definition grade_response ::
  "(string \<Rightarrow> string + pyval) \<Rightarrow> (pyval \<Rightarrow> string) \<Rightarrow>
   string \<Rightarrow> string \<Rightarrow> string \<Rightarrow> string \<Rightarrow> GradingResponse \<Rightarrow> exn + GradingResult" where
  "grade_response loads str_of sid prob cd evaluation_type response =
     (if \<not> rsp_success response then
        Inr ((GradingResult_default sid prob cd False)
              \<lparr> processing_time := rsp_processing_time response,
                error_message := rsp_error_message response \<rparr>)
      else if evaluation_type = ''json'' then
        parse_json_result loads str_of sid prob cd response
      else if evaluation_type = ''simple'' then
        parse_simple_result loads str_of sid prob cd response
      else Inr (parse_text_result sid prob cd response))"

text \<open>
  The prompt generator: its three methods build the prompt from the problem, the code
  and the reference solution by interpolation into fixed templates, and never raise.
\<close>

record PromptGenerator =
  generate_json_prompt :: "string \<Rightarrow> string \<Rightarrow> string option \<Rightarrow> string"
  generate_simple_prompt :: "string \<Rightarrow> string \<Rightarrow> string"
  generate_comprehensive_prompt :: "string \<Rightarrow> string \<Rightarrow> string option \<Rightarrow> string"

record GradingEngine =
  client :: MultiModelClient
  prompt_generator :: PromptGenerator


text \<open>The prompt \<open>grade_code\<close> selects.\<close>

definition select_prompt ::
  "PromptGenerator \<Rightarrow> string \<Rightarrow> string \<Rightarrow> string \<Rightarrow> string option \<Rightarrow> string" where
  "select_prompt gen evaluation_type prob cd model_solution =
     (if evaluation_type = ''json'' then generate_json_prompt gen prob cd model_solution
      else if evaluation_type = ''simple'' then generate_simple_prompt gen prob cd
      else if evaluation_type = ''comprehensive''
      then generate_comprehensive_prompt gen prob cd model_solution
      else generate_json_prompt gen prob cd model_solution)"

text \<open>\<open>GradingEngine.grade_code\<close>.\<close>

definition grade_code ::
  "'w world \<Rightarrow> (string \<Rightarrow> string + pyval) \<Rightarrow> (pyval \<Rightarrow> string) \<Rightarrow> GradingEngine \<Rightarrow>
   string \<Rightarrow> string \<Rightarrow> string \<Rightarrow> string \<Rightarrow> string option \<Rightarrow> 'w \<Rightarrow> (exn + GradingResult) \<times> 'w" where
  "grade_code io loads str_of eng sid prob cd evaluation_type model_solution w =
     (let prompt = select_prompt (prompt_generator eng) evaluation_type prob cd model_solution
      in case evaluate_code io (client eng) prompt w of
           (response, w') \<Rightarrow>
             (grade_response loads str_of sid prob cd evaluation_type response, w'))"


text \<open>
  \<open>GradingEngine.grade_batch\<close>. A submission is a dictionary from texts to texts. An
  exception ends the loop, and the results so far are lost with it.
\<close>

fun grade_batch ::
  "'w world \<Rightarrow> (string \<Rightarrow> string + pyval) \<Rightarrow> (pyval \<Rightarrow> string) \<Rightarrow> GradingEngine \<Rightarrow>
   (string \<times> string) list list \<Rightarrow> string \<Rightarrow> 'w \<Rightarrow> (exn + GradingResult list) \<times> 'w" where
  "grade_batch io loads str_of eng [] evaluation_type w = (Inr [], w)"
| "grade_batch io loads str_of eng (submission # rest) evaluation_type w =
     (let sid = (case map_of submission ''student_id'' of Some v \<Rightarrow> v | None \<Rightarrow> ''unknown'')
      in case map_of submission ''problem'' of
           None \<Rightarrow> (Inl (KeyError ''problem''), w)
         | Some prob \<Rightarrow>
        (case map_of submission ''code'' of
           None \<Rightarrow> (Inl (KeyError ''code''), w)
         | Some cd \<Rightarrow>
        (case grade_code io loads str_of eng sid prob cd evaluation_type
                (map_of submission ''model_solution'') w of
           (Inl e, w') \<Rightarrow> (Inl e, w')
         | (Inr result, w') \<Rightarrow>
        (case grade_batch io loads str_of eng rest evaluation_type w' of
           (Inl e, w'') \<Rightarrow> (Inl e, w'')
         | (Inr results, w'') \<Rightarrow> (Inr (result # results), w'')))))"

section \<open>The facade\<close>

record CodeGrader =
  engine :: GradingEngine
  grader_provider :: string


text \<open>\<open>x or []\<close>.\<close>

definition or_empty :: "pyval \<Rightarrow> pyval" where
  "or_empty x = (if truthy x then x else PList [])"

text \<open>\<open>CodeGrader._format_result\<close>: the dictionary handed to the caller.\<close>

definition format_result :: "GradingResult \<Rightarrow> (string \<times> pyval) list" where
  "format_result result =
     [(''student_id'', PStr (student_id result)),
      (''success'', PBool (success result)),
      (''grade'', grade result),
      (''percentage'', percentage result),
      (''feedback'', feedback result),
      (''issues'', or_empty (issues result)),
      (''recommendations'', or_empty (recommendations result)),
      (''strengths'', or_empty (strengths result)),
      (''processing_time'', PFloat (processing_time result)),
      (''error'', (case error_message result of None \<Rightarrow> PNone | Some m \<Rightarrow> PStr m))]"

text \<open>\<open>CodeGrader.grade_code\<close> and \<open>CodeGrader.grade_multiple\<close>.\<close>

definition grader_grade_code ::
  "'w world \<Rightarrow> (string \<Rightarrow> string + pyval) \<Rightarrow> (pyval \<Rightarrow> string) \<Rightarrow> CodeGrader \<Rightarrow>
   string \<Rightarrow> string \<Rightarrow> string \<Rightarrow> string \<Rightarrow> string option \<Rightarrow> 'w \<Rightarrow>
   (exn + (string \<times> pyval) list) \<times> 'w" where
  "grader_grade_code io loads str_of g prob student_code sid fmt model_solution w =
     (case grade_code io loads str_of (engine g) sid prob student_code fmt model_solution w of
        (Inl e, w') \<Rightarrow> (Inl e, w')
      | (Inr result, w') \<Rightarrow> (Inr (format_result result), w'))"

definition grade_multiple ::
  "'w world \<Rightarrow> (string \<Rightarrow> string + pyval) \<Rightarrow> (pyval \<Rightarrow> string) \<Rightarrow> CodeGrader \<Rightarrow>
   (string \<times> string) list list \<Rightarrow> string \<Rightarrow> 'w \<Rightarrow> (exn + (string \<times> pyval) list list) \<times> 'w" where
  "grade_multiple io loads str_of g submissions fmt w =
     (case grade_batch io loads str_of (engine g) submissions fmt w of
        (Inl e, w') \<Rightarrow> (Inl e, w')
      | (Inr results, w') \<Rightarrow> (Inr (map format_result results), w'))"

section \<open>Example objects\<close>

text \<open>A prompt generator, an engine, and a world in which the provider is down.\<close>

definition example_generator :: PromptGenerator where
  "example_generator =
     \<lparr> generate_json_prompt = (\<lambda>prob cd ms. ''json: '' @ prob @ cd),
       generate_simple_prompt = (\<lambda>prob cd. ''simple: '' @ prob @ cd),
       generate_comprehensive_prompt = (\<lambda>prob cd ms. ''text: '' @ prob @ cd) \<rparr>"

definition example_engine :: GradingEngine where
  "example_engine =
     \<lparr> client = \<lparr> api_key = ''key'', model = ''gpt-3.5-turbo'', provider = ''openai'' \<rparr>,
       prompt_generator = example_generator \<rparr>"

definition world_down :: "unit world" where
  "world_down =
     \<lparr> post = (\<lambda>c prompt w.
                (Inr \<lparr> status_code = 503, body = ''Service Unavailable'', completion = Inl [] \<rparr>, w)),
       elapsed = (\<lambda>w. Fin (3 / 2)) \<rparr>"

text \<open>
  A world in which the provider answers every prompt with the completion \<open>s\<close>, after 1.5
  seconds. The text of the body is read only for the message of an error.
\<close>

definition world_up :: "string \<Rightarrow> unit world" where
  "world_up s =
     \<lparr> post = (\<lambda>c prompt w. (Inr \<lparr> status_code = 200, body = [], completion = Inr s \<rparr>, w)),
       elapsed = (\<lambda>w. Fin (3 / 2)) \<rparr>"

text \<open>A response of the client that carries the completion \<open>s\<close>, after 1.5 seconds.\<close>

definition completed :: "string \<Rightarrow> GradingResponse" where
  "completed s =
     (GradingResponse_default True) \<lparr> raw_response := s, rsp_processing_time := Fin (3 / 2) \<rparr>"

text \<open>
  \<open>str\<close> on \<open>None\<close>, on a \<open>bool\<close>, an \<open>int\<close> and a \<open>str\<close>. The examples format no other
  value.
\<close>

definition example_str :: "pyval \<Rightarrow> string" where
  "example_str v =
     (case v of
        PNone \<Rightarrow> ''None''
      | PBool b \<Rightarrow> (if b then ''True'' else ''False'')
      | PInt n \<Rightarrow> str_int n
      | PStr s \<Rightarrow> s
      | _ \<Rightarrow> [])"

text \<open>
  The text of the \<open>JSONDecodeError\<close> for the documents of the examples that \<open>json.loads\<close>
  refuses: one that ends inside a string, and those that do not begin with a JSON value.
\<close>

definition example_message :: "string \<Rightarrow> string" where
  \<open>example_message s =
     (if s = ''{"a": "'' then ''Unterminated string starting at: line 1 column 7 (char 6)''
      else ''Expecting value: line 1 column 1 (char 0)'')\<close>

definition example_loads :: "string \<Rightarrow> string + pyval" where
  "example_loads = json_loads example_message"

section \<open>The short cut on a failed response\<close>

lemma evaluate_code_world_down:
  "evaluate_code world_down (client example_engine) prompt () =
     ((GradingResponse_default False)
        \<lparr> rsp_error_message := Some ''OpenAI API error: 503 - Service Unavailable'',
          rsp_processing_time := Fin (3 / 2) \<rparr>, ())"
  by (simp add: evaluate_code_def call_api_def world_down_def example_engine_def
      str_int_def str_nat.simps)

text \<open>
  Claim C2. When the client reports a failure, \<open>grade_code\<close> returns a result (it does
  not raise) with \<open>success\<close> false, the error message and the elapsed time of the
  response, and \<open>grade\<close>, \<open>percentage\<close> and \<open>feedback\<close> \<open>None\<close>. The result is the same for
  every \<open>json.loads\<close> and every formatter: the text of the response is not parsed.
\<close>

theorem grade_code_failed_response:
  assumes "evaluate_code io (client eng)
             (select_prompt (prompt_generator eng) evaluation_type prob cd model_solution) w
           = (response, w')"
    and "\<not> rsp_success response"
  shows "\<forall>loads str_of.
           grade_code io loads str_of eng sid prob cd evaluation_type model_solution w =
           (Inr \<lparr> student_id = sid, problem = prob, code = cd, success = False,
                  grade = PNone, percentage = PNone, feedback = PNone,
                  issues = PNone, recommendations = PNone, strengths = PNone,
                  processing_time = rsp_processing_time response,
                  error_message = rsp_error_message response \<rparr>, w')"
  using assms by (simp add: grade_code_def grade_response_def GradingResult_default_def)

theorem grade_code_failed_response_witness:
  "\<forall>loads str_of.
     grade_code world_down loads str_of example_engine
       ''s1'' ''max'' ''def f(): pass'' ''json'' None () =
     (Inr \<lparr> student_id = ''s1'', problem = ''max'', code = ''def f(): pass'', success = False,
            grade = PNone, percentage = PNone, feedback = PNone,
            issues = PNone, recommendations = PNone, strengths = PNone,
            processing_time = Fin (3 / 2),
            error_message = Some ''OpenAI API error: 503 - Service Unavailable'' \<rparr>, ())"
  using grade_code_failed_response [OF evaluate_code_world_down, where sid = "''s1''"]
  by (simp add: GradingResponse_default_def)

section \<open>Results of the JSON formats\<close>

lemma py_in_dict: "py_in k (PDict d) = Inr (map_of d k \<noteq> None)"
  by (simp add: map_of_eq_None_iff)

declare py_in.simps(1) [simp del]

lemma parse_json_result_dict:
  assumes "parse_json_response loads (raw_response response) = PDict d"
    and "map_of d ''error'' = None"
  shows "parse_json_result loads str_of sid prob cd response =
     (case percentage_default (case map_of d ''total_score'' of Some v \<Rightarrow> v | None \<Rightarrow> PInt 0) of
           Inl e \<Rightarrow> Inl e
         | Inr dflt \<Rightarrow>
             Inr \<lparr> student_id = sid, problem = prob, code = cd, success = True,
                   grade = (case map_of d ''total_score'' of Some v \<Rightarrow> v | None \<Rightarrow> PInt 0),
                   percentage = (case map_of d ''percentage'' of Some v \<Rightarrow> v | None \<Rightarrow> dflt),
                   feedback = PDict d,
                   issues = (case map_of d ''issues'' of Some v \<Rightarrow> v | None \<Rightarrow> PList []),
                   recommendations =
                     (case map_of d ''recommendations'' of Some v \<Rightarrow> v | None \<Rightarrow> PList []),
                   strengths = (case map_of d ''strengths'' of Some v \<Rightarrow> v | None \<Rightarrow> PList []),
                   processing_time = rsp_processing_time response,
                   error_message = None \<rparr>)"
  unfolding parse_json_result_def
  by (simp only: assms py_in_dict Let_def)
     (simp add: GradingResult_default_def split: sum.splits)

lemma parse_simple_result_dict:
  assumes "parse_json_response loads (raw_response response) = PDict d"
    and "map_of d ''error'' = None"
  shows "parse_simple_result loads str_of sid prob cd response =
     Inr \<lparr> student_id = sid, problem = prob, code = cd, success = True,
           grade = PFloat (Fin (if truthy (case map_of d ''is_correct'' of Some v \<Rightarrow> v | None \<Rightarrow> PBool False)
                                then 100
                                else if \<not> truthy (case map_of d ''hints'' of Some v \<Rightarrow> v | None \<Rightarrow> PList [])
                                then 50 else 25)),
           percentage = PFloat (Fin (if truthy (case map_of d ''is_correct'' of Some v \<Rightarrow> v | None \<Rightarrow> PBool False)
                                then 100
                                else if \<not> truthy (case map_of d ''hints'' of Some v \<Rightarrow> v | None \<Rightarrow> PList [])
                                then 50 else 25)),
           feedback = PDict d,
           issues = (case map_of d ''hints'' of Some v \<Rightarrow> v | None \<Rightarrow> PList []),
           recommendations = PNone, strengths = PNone,
           processing_time = rsp_processing_time response,
           error_message = None \<rparr>"
  unfolding parse_simple_result_def
  by (simp only: assms py_in_dict Let_def)
     (simp add: GradingResult_default_def)

text \<open>
  Claim C10, as amended. In the json format, when the response is decoded to an object
  that has neither the key \<open>error\<close> nor the key \<open>total_score\<close>, the result has \<open>success\<close>
  true and \<open>grade\<close> 0; its \<open>percentage\<close> is the value the object has under \<open>percentage\<close>,
  and 0 only when that key is missing too.
\<close>

theorem json_without_total_score:
  assumes "rsp_success response"
    and "parse_json_response loads (raw_response response) = PDict d"
    and "map_of d ''error'' = None"
    and "map_of d ''total_score'' = None"
  shows "\<exists>r. grade_response loads str_of sid prob cd ''json'' response = Inr r
            \<and> success r \<and> grade r = PInt 0
            \<and> percentage r = (case map_of d ''percentage'' of None \<Rightarrow> PInt 0 | Some v \<Rightarrow> v)"
proof -
  have "percentage_default (PInt 0) = Inr (PInt 0)"
    by (simp add: percentage_default_def)
  then show ?thesis
    using assms(1,4)
    by (simp add: grade_response_def parse_json_result_dict [OF assms(2,3)])
qed

lemma completed_simps:
  "rsp_success (completed s)" "raw_response (completed s) = s"
  "rsp_processing_time (completed s) = Fin (3 / 2)"
  by (simp_all add: completed_def GradingResponse_default_def)

lemma decode_issues_only:
  \<open>parse_json_response example_loads ''{"issues": []}'' = PDict [(''issues'', PList [])]\<close>
  unfolding example_loads_def by code_simp

theorem json_without_total_score_witness:
  \<open>\<exists>r. grade_response example_loads example_str ''s1'' ''max'' ''pass'' ''json''
          (completed ''{"issues": []}'') = Inr r
       \<and> success r \<and> grade r = PInt 0 \<and> percentage r = PInt 0\<close>
  using json_without_total_score [of \<open>completed ''{"issues": []}''\<close> example_loads
      "[(''issues'', PList [])]" example_str "''s1''" "''max''" "''pass''"]
  by (simp add: completed_simps decode_issues_only)

text \<open>
  The claim as stated fails on the object \<open>{"percentage": 85}\<close>: no \<open>error\<close>, no
  \<open>total_score\<close>, and the percentage of the result is 85.
\<close>

lemma decode_percentage_only:
  \<open>parse_json_response example_loads ''{"percentage": 85}'' = PDict [(''percentage'', PInt 85)]\<close>
  unfolding example_loads_def by code_simp

theorem json_without_total_score_counterexample:
  \<open>grade_response example_loads example_str ''s1'' ''max'' ''pass'' ''json''
     (completed ''{"percentage": 85}'') =
   Inr \<lparr> student_id = ''s1'', problem = ''max'', code = ''pass'', success = True,
         grade = PInt 0, percentage = PInt 85,
         feedback = PDict [(''percentage'', PInt 85)],
         issues = PList [], recommendations = PList [], strengths = PList [],
         processing_time = Fin (3 / 2), error_message = None \<rparr>\<close>
  by (simp add: grade_response_def completed_simps percentage_default_def
      parse_json_result_dict [where d = "[(''percentage'', PInt 85)]"] decode_percentage_only)

section \<open>The grades of the simple format\<close>

text \<open>
  Claim C4. In the simple format, when the response is decoded to an object without the
  key \<open>error\<close>, the result has \<open>success\<close> true, the grade is 100.0 when \<open>is_correct\<close> is
  true, 50.0 when \<open>is_correct\<close> is false or missing and \<open>hints\<close> is empty or missing,
  25.0 when \<open>is_correct\<close> is false or missing and \<open>hints\<close> is a list with an element;
  the percentage is the grade and the hints are the issues.
\<close>

theorem simple_result_grades:
  assumes "rsp_success response"
    and "parse_json_response loads (raw_response response) = PDict d"
    and "map_of d ''error'' = None"
  shows "\<exists>r. grade_response loads str_of sid prob cd ''simple'' response = Inr r
            \<and> success r \<and> percentage r = grade r
            \<and> issues r = (case map_of d ''hints'' of Some v \<Rightarrow> v | None \<Rightarrow> PList [])
            \<and> (map_of d ''is_correct'' = Some (PBool True) \<longrightarrow> grade r = PFloat (Fin 100))
            \<and> (map_of d ''is_correct'' \<in> {None, Some (PBool False)}
                 \<and> map_of d ''hints'' \<in> {None, Some (PList [])} \<longrightarrow> grade r = PFloat (Fin 50))
            \<and> (map_of d ''is_correct'' \<in> {None, Some (PBool False)}
                 \<and> (\<exists>h hs. map_of d ''hints'' = Some (PList (h # hs)))
                 \<longrightarrow> grade r = PFloat (Fin 25))"
  using assms(1)
  by (cases "map_of d ''is_correct''"; cases "map_of d ''hints''")
     (auto simp add: grade_response_def parse_simple_result_dict [OF assms(2,3)])

lemma decode_hints:
  \<open>parse_json_response example_loads
     ''{"is_correct": false, "hints": [{"line_number": 3, "hint": "off by one"}]}'' =
   PDict [(''is_correct'', PBool False),
          (''hints'', PList [PDict [(''line_number'', PInt 3), (''hint'', PStr ''off by one'')]])]\<close>
  unfolding example_loads_def by code_simp

theorem simple_result_grades_witness:
  \<open>\<exists>r. grade_response example_loads example_str ''s1'' ''max'' ''pass'' ''simple''
          (completed ''{"is_correct": false, "hints": [{"line_number": 3, "hint": "off by one"}]}'')
        = Inr r
       \<and> success r \<and> grade r = PFloat (Fin 25) \<and> percentage r = PFloat (Fin 25)
       \<and> issues r = PList [PDict [(''line_number'', PInt 3), (''hint'', PStr ''off by one'')]]\<close>
  using simple_result_grades [of
      \<open>completed ''{"is_correct": false, "hints": [{"line_number": 3, "hint": "off by one"}]}''\<close>
      example_loads
      "[(''is_correct'', PBool False),
        (''hints'', PList [PDict [(''line_number'', PInt 3), (''hint'', PStr ''off by one'')]])]"
      example_str "''s1''" "''max''" "''pass''"]
  by (auto simp add: completed_simps decode_hints)

section \<open>The percentage fallback of the json format\<close>

text \<open>
  The claim as stated (claim C5) fails on \<open>{"total_score": 57}\<close>: the fallback
  \<open>57 / 100.0 * 100\<close> is the float \<open>56.99999999999999\<close>, not 57.
\<close>

lemma percentage_default_57:
  "percentage_default (PInt 57) = Inr (PFloat (Fin (8022036836253695 / 140737488355328)))"
  by code_simp

lemma decode_score_57:
  \<open>parse_json_response example_loads ''{"total_score": 57}'' = PDict [(''total_score'', PInt 57)]\<close>
  unfolding example_loads_def by code_simp

theorem json_percentage_fallback_counterexample:
  \<open>grade_response example_loads example_str ''s1'' ''max'' ''pass'' ''json''
     (completed ''{"total_score": 57}'') =
   Inr \<lparr> student_id = ''s1'', problem = ''max'', code = ''pass'', success = True,
         grade = PInt 57, percentage = PFloat (Fin (8022036836253695 / 140737488355328)),
         feedback = PDict [(''total_score'', PInt 57)],
         issues = PList [], recommendations = PList [], strengths = PList [],
         processing_time = Fin (3 / 2), error_message = None \<rparr>
   \<and> (8022036836253695 / 140737488355328 :: rat) < 57\<close>
  by (simp add: grade_response_def completed_simps percentage_default_57
      parse_json_result_dict [where d = "[(''total_score'', PInt 57)]"] decode_score_57)

lemma round_trip_82: "mul_100 (div_100 (Fin 82)) = Fin 82"
  by code_simp

lemma float_of_int_82: "float_of_int 82 = Inr (Fin 82)"
  by code_simp

text \<open>
  Claim C5, as amended. In the json format, when the decoded object has no key
  \<open>percentage\<close>: the percentage is 0 when \<open>total_score\<close> is missing or false as a truth
  value; when \<open>total_score\<close> is a number that is not zero, the percentage is the float
  \<open>total_score / 100.0 * 100\<close>, each of the two operations rounded; for \<open>total_score\<close> 82
  that is \<open>82.0\<close>.
\<close>

theorem json_percentage_fallback:
  assumes "rsp_success response"
    and "parse_json_response loads (raw_response response) = PDict d"
    and "map_of d ''error'' = None"
    and "map_of d ''percentage'' = None"
    and "g = (case map_of d ''total_score'' of Some v \<Rightarrow> v | None \<Rightarrow> PInt 0)"
  shows "(\<not> truthy g \<longrightarrow>
           (\<exists>r. grade_response loads str_of sid prob cd ''json'' response = Inr r
                \<and> success r \<and> grade r = g \<and> percentage r = PInt 0))
       \<and> (\<forall>x. truthy g \<and> num_as_float g = Inr x \<longrightarrow>
           (\<exists>r. grade_response loads str_of sid prob cd ''json'' response = Inr r
                \<and> success r \<and> grade r = g \<and> percentage r = PFloat (mul_100 (div_100 x))))
       \<and> (g = PInt 82 \<longrightarrow>
           (\<exists>r. grade_response loads str_of sid prob cd ''json'' response = Inr r
                \<and> success r \<and> grade r = g \<and> percentage r = PFloat (Fin 82)))"
  using assms(1,4,5) round_trip_82 float_of_int_82
  by (auto simp add: grade_response_def parse_json_result_dict [OF assms(2,3)]
      percentage_default_def)

lemma decode_score_82:
  \<open>parse_json_response example_loads ''{"total_score": 82}'' = PDict [(''total_score'', PInt 82)]\<close>
  unfolding example_loads_def by code_simp

theorem json_percentage_fallback_witness:
  \<open>\<exists>r. grade_response example_loads example_str ''s1'' ''max'' ''pass'' ''json''
          (completed ''{"total_score": 82}'') = Inr r
       \<and> success r \<and> grade r = PInt 82 \<and> percentage r = PFloat (Fin 82)\<close>
  using json_percentage_fallback [of \<open>completed ''{"total_score": 82}''\<close> example_loads
      "[(''total_score'', PInt 82)]" "PInt 82" example_str "''s1''" "''max''" "''pass''"]
  by (auto simp add: completed_simps decode_score_82)

section \<open>The invariant of a grading result\<close>

lemma evaluate_code_failure_message:
  assumes "evaluate_code io c prompt w = (r, w')" and "\<not> rsp_success r"
  shows "\<exists>m. rsp_error_message r = Some m \<and> m \<noteq> []"
  using assms
  by (auto simp add: evaluate_code_def call_api_def GradingResponse_default_def Let_def
      split: option.splits sum.splits prod.splits if_splits)

lemma first_score_cases:
  "first_score ps t = PNone \<or> (\<exists>x. first_score ps t = PFloat x)"
  by (induction ps) (auto split: option.splits)

lemma parse_json_result_cases:
  assumes "parse_json_result loads str_of sid prob cd response = Inr r"
  shows "(\<not> success r \<and> grade r = PNone \<and> percentage r = PNone \<and> feedback r = PNone
          \<and> (\<exists>m. error_message r = Some (''JSON parsing error: '' @ m)))
       \<or> (success r \<and> error_message r = None
          \<and> (\<exists>d. feedback r = PDict d
                \<and> grade r = (case map_of d ''total_score'' of Some v \<Rightarrow> v | None \<Rightarrow> PInt 0)
                \<and> issues r = (case map_of d ''issues'' of Some v \<Rightarrow> v | None \<Rightarrow> PList [])
                \<and> recommendations r =
                    (case map_of d ''recommendations'' of Some v \<Rightarrow> v | None \<Rightarrow> PList [])
                \<and> strengths r = (case map_of d ''strengths'' of Some v \<Rightarrow> v | None \<Rightarrow> PList [])))"
proof (cases "parse_json_response loads (raw_response response)")
  case (PDict d)
  show ?thesis
  proof (cases "map_of d ''error''")
    case None
    with assms PDict show ?thesis
      by (auto simp add: parse_json_result_dict split: sum.splits)
  next
    case (Some v)
    with assms PDict show ?thesis
      by (auto simp add: parse_json_result_def py_in_dict Let_def parsing_error_result_def
          GradingResult_default_def)
  qed
qed (use assms in \<open>auto simp add: parse_json_result_def Let_def split: bool.splits if_splits\<close>)

lemma parse_simple_result_cases:
  assumes "parse_simple_result loads str_of sid prob cd response = Inr r"
  shows "(\<not> success r \<and> grade r = PNone \<and> percentage r = PNone \<and> feedback r = PNone
          \<and> (\<exists>m. error_message r = Some (''JSON parsing error: '' @ m)))
       \<or> (success r \<and> error_message r = None \<and> (\<exists>d. feedback r = PDict d)
          \<and> percentage r = grade r
          \<and> grade r \<in> {PFloat (Fin 100), PFloat (Fin 50), PFloat (Fin 25)})"
proof (cases "parse_json_response loads (raw_response response)")
  case (PDict d)
  show ?thesis
  proof (cases "map_of d ''error''")
    case None
    with assms PDict show ?thesis
      by (auto simp add: parse_simple_result_dict split: if_splits)
  next
    case (Some v)
    with assms PDict show ?thesis
      by (auto simp add: parse_simple_result_def py_in_dict Let_def parsing_error_result_def
          GradingResult_default_def)
  qed
qed (use assms in \<open>auto simp add: parse_simple_result_def Let_def split: bool.splits if_splits\<close>)

lemma parse_text_result_fields:
  "success (parse_text_result sid prob cd response)"
  "error_message (parse_text_result sid prob cd response) = None"
  "feedback (parse_text_result sid prob cd response) = PDict [(''raw_text'', PStr (raw_response response))]"
  "percentage (parse_text_result sid prob cd response) =
     (if grade (parse_text_result sid prob cd response) = PNone then PFloat (Fin 0)
      else grade (parse_text_result sid prob cd response))"
  "issues (parse_text_result sid prob cd response) = PNone"
  "recommendations (parse_text_result sid prob cd response) = PNone"
  "strengths (parse_text_result sid prob cd response) = PNone"
  by (simp_all add: parse_text_result_def GradingResult_default_def Let_def)

lemma parse_text_result_grade:
  "grade (parse_text_result sid prob cd response) =
     (case first_score score_patterns (raw_response response) of
        PNone \<Rightarrow>
          (case re_search percent_pattern (raw_response response) of
             Some m \<Rightarrow> PFloat (float_of_decimal m)
           | None \<Rightarrow> PNone)
      | g \<Rightarrow> g)"
  using first_score_cases [of score_patterns "raw_response response"]
  by (auto simp add: parse_text_result_def GradingResult_default_def Let_def split: option.splits)

text \<open>
  Claim C1, as amended. For every result of \<open>grade_code\<close>: when \<open>success\<close> is false,
  \<open>grade\<close>, \<open>percentage\<close> and \<open>feedback\<close> are \<open>None\<close> and the error message is a text that
  is not empty; when \<open>success\<close> is true there is no error message and \<open>feedback\<close> is
  present, in the simple format \<open>grade\<close> and \<open>percentage\<close> are the same float (100, 50 or
  25), and in the text format \<open>percentage\<close> is present: it is the grade, or \<open>0.0\<close> when the
  grade is \<open>None\<close>, which is the case exactly when no score pattern and no percentage is
  found in the text.
\<close>

theorem grading_result_invariant:
  assumes "grade_code io loads str_of eng sid prob cd evaluation_type model_solution w = (Inr r, w')"
  shows "(\<not> success r \<longrightarrow>
            grade r = PNone \<and> percentage r = PNone \<and> feedback r = PNone
            \<and> (\<exists>m. error_message r = Some m \<and> m \<noteq> []))
       \<and> (success r \<longrightarrow>
            error_message r = None \<and> feedback r \<noteq> PNone
            \<and> (evaluation_type = ''simple'' \<longrightarrow>
                 percentage r = grade r
                 \<and> grade r \<in> {PFloat (Fin 100), PFloat (Fin 50), PFloat (Fin 25)})
            \<and> (evaluation_type \<noteq> ''json'' \<and> evaluation_type \<noteq> ''simple'' \<longrightarrow>
                 percentage r = (if grade r = PNone then PFloat (Fin 0) else grade r)
                 \<and> (\<exists>t. feedback r = PDict [(''raw_text'', PStr t)]
                       \<and> (grade r = PNone \<longleftrightarrow>
                            first_score score_patterns t = PNone
                            \<and> re_search percent_pattern t = None))))"
proof -
  obtain response where ev:
    "evaluate_code io (client eng)
       (select_prompt (prompt_generator eng) evaluation_type prob cd model_solution) w
     = (response, w')"
    and gr: "grade_response loads str_of sid prob cd evaluation_type response = Inr r"
    using assms by (auto simp add: grade_code_def Let_def split: prod.splits)
  show ?thesis
  proof (cases "rsp_success response")
    case False
    with gr evaluate_code_failure_message [OF ev] show ?thesis
      by (auto simp add: grade_response_def GradingResult_default_def)
  next
    case ok: True
    consider (json) "evaluation_type = ''json''" | (simple) "evaluation_type = ''simple''"
      | (other) "evaluation_type \<noteq> ''json''" "evaluation_type \<noteq> ''simple''"
      by blast
    then show ?thesis
    proof cases
      case json
      with gr ok have "parse_json_result loads str_of sid prob cd response = Inr r"
        by (simp add: grade_response_def)
      from parse_json_result_cases [OF this] json show ?thesis by auto
    next
      case simple
      with gr ok have "parse_simple_result loads str_of sid prob cd response = Inr r"
        by (simp add: grade_response_def)
      from parse_simple_result_cases [OF this] simple show ?thesis by auto
    next
      case other
      with gr ok have r: "r = parse_text_result sid prob cd response"
        by (simp add: grade_response_def)
      have "grade r = PNone \<longleftrightarrow>
              first_score score_patterns (raw_response response) = PNone
              \<and> re_search percent_pattern (raw_response response) = None"
        using first_score_cases [of score_patterns "raw_response response"]
        by (auto simp add: r parse_text_result_grade split: option.splits)
      with other show ?thesis
        by (simp add: r parse_text_result_fields)
    qed
  qed
qed

lemma evaluate_code_world_up:
  "evaluate_code (world_up s) (client example_engine) prompt () = (completed s, ())"
  by (simp add: evaluate_code_def call_api_def world_up_def example_engine_def completed_def)

lemma grade_code_world_up:
  "grade_code (world_up s) loads str_of example_engine sid prob cd evaluation_type ms () =
     (grade_response loads str_of sid prob cd evaluation_type (completed s), ())"
  by (simp add: grade_code_def evaluate_code_world_up)

text \<open>
  The claim as stated fails in the text format on a response without a score: the result
  has \<open>success\<close> true and the grade \<open>None\<close>.
\<close>

lemma text_no_score:
  "parse_text_result ''s1'' ''max'' ''pass'' (completed ''Well done.'') =
   \<lparr> student_id = ''s1'', problem = ''max'', code = ''pass'', success = True,
     grade = PNone, percentage = PFloat (Fin 0),
     feedback = PDict [(''raw_text'', PStr ''Well done.'')],
     issues = PNone, recommendations = PNone, strengths = PNone,
     processing_time = Fin (3 / 2), error_message = None \<rparr>"
  by code_simp

theorem grading_result_invariant_counterexample:
  "grade_code (world_up ''Well done.'') example_loads example_str example_engine
     ''s1'' ''max'' ''pass'' ''comprehensive'' None () =
   (Inr \<lparr> student_id = ''s1'', problem = ''max'', code = ''pass'', success = True,
          grade = PNone, percentage = PFloat (Fin 0),
          feedback = PDict [(''raw_text'', PStr ''Well done.'')],
          issues = PNone, recommendations = PNone, strengths = PNone,
          processing_time = Fin (3 / 2), error_message = None \<rparr>, ())"
  by (simp add: grade_code_world_up grade_response_def completed_simps text_no_score)

lemma text_total_90:
  "parse_text_result ''s1'' ''max'' ''pass'' (completed ''TOTAL: 90/100'') =
   \<lparr> student_id = ''s1'', problem = ''max'', code = ''pass'', success = True,
     grade = PFloat (Fin 90), percentage = PFloat (Fin 90),
     feedback = PDict [(''raw_text'', PStr ''TOTAL: 90/100'')],
     issues = PNone, recommendations = PNone, strengths = PNone,
     processing_time = Fin (3 / 2), error_message = None \<rparr>"
  by code_simp

lemma grade_code_total_90:
  "grade_code (world_up ''TOTAL: 90/100'') example_loads example_str example_engine
     ''s1'' ''max'' ''pass'' ''comprehensive'' None () =
   (Inr \<lparr> student_id = ''s1'', problem = ''max'', code = ''pass'', success = True,
          grade = PFloat (Fin 90), percentage = PFloat (Fin 90),
          feedback = PDict [(''raw_text'', PStr ''TOTAL: 90/100'')],
          issues = PNone, recommendations = PNone, strengths = PNone,
          processing_time = Fin (3 / 2), error_message = None \<rparr>, ())"
  by (simp add: grade_code_world_up grade_response_def completed_simps text_total_90)

theorem grading_result_invariant_witness:
  "\<exists>r. grade_code (world_up ''TOTAL: 90/100'') example_loads example_str example_engine
          ''s1'' ''max'' ''pass'' ''comprehensive'' None () = (Inr r, ())
       \<and> success r \<and> error_message r = None
       \<and> feedback r = PDict [(''raw_text'', PStr ''TOTAL: 90/100'')]
       \<and> grade r = PFloat (Fin 90) \<and> percentage r = grade r"
  using grading_result_invariant [OF grade_code_total_90] grade_code_total_90
  by simp

section \<open>The list fields\<close>

text \<open>
  Claim C8, as amended. In the dictionary the facade returns, \<open>issues\<close>,
  \<open>recommendations\<close> and \<open>strengths\<close> are never \<open>None\<close>: each is the field of the engine's
  result when that is true as a truth value, and the empty list otherwise. In a successful
  result of the engine for the json format, each of the three fields is the value the
  decoded object has under that key, and the empty list when the key is missing.
\<close>

theorem list_fields_never_none:
  "(map_of (format_result r) ''issues'' =
      Some (if truthy (issues r) then issues r else PList [])
    \<and> map_of (format_result r) ''recommendations'' =
      Some (if truthy (recommendations r) then recommendations r else PList [])
    \<and> map_of (format_result r) ''strengths'' =
      Some (if truthy (strengths r) then strengths r else PList [])
    \<and> (\<forall>k \<in> {''issues'', ''recommendations'', ''strengths''}.
          map_of (format_result r) k \<noteq> None \<and> map_of (format_result r) k \<noteq> Some PNone))
   \<and> (\<forall>r'. grade_response loads str_of sid prob cd ''json'' response = Inr r' \<and> success r' \<longrightarrow>
          (\<exists>d. feedback r' = PDict d
             \<and> issues r' = (case map_of d ''issues'' of Some v \<Rightarrow> v | None \<Rightarrow> PList [])
             \<and> recommendations r' =
                 (case map_of d ''recommendations'' of Some v \<Rightarrow> v | None \<Rightarrow> PList [])
             \<and> strengths r' = (case map_of d ''strengths'' of Some v \<Rightarrow> v | None \<Rightarrow> PList [])))"
proof -
  have "\<not> truthy PNone" by simp
  then have facade: "truthy x \<Longrightarrow> x \<noteq> PNone" for x by auto
  have engine: "\<exists>d. feedback r' = PDict d
             \<and> issues r' = (case map_of d ''issues'' of Some v \<Rightarrow> v | None \<Rightarrow> PList [])
             \<and> recommendations r' =
                 (case map_of d ''recommendations'' of Some v \<Rightarrow> v | None \<Rightarrow> PList [])
             \<and> strengths r' = (case map_of d ''strengths'' of Some v \<Rightarrow> v | None \<Rightarrow> PList [])"
    if "grade_response loads str_of sid prob cd ''json'' response = Inr r'" and "success r'" for r'
  proof -
    from that have "parse_json_result loads str_of sid prob cd response = Inr r'"
      by (auto simp add: grade_response_def GradingResult_default_def split: if_splits)
    from parse_json_result_cases [OF this] that(2) show ?thesis by auto
  qed
  show ?thesis
    using engine by (auto simp add: format_result_def or_empty_def dest: facade)
qed

lemma json_score_82_result:
  \<open>grade_response example_loads example_str ''s1'' ''max'' ''pass'' ''json''
     (completed ''{"total_score": 82}'') =
   Inr \<lparr> student_id = ''s1'', problem = ''max'', code = ''pass'', success = True,
         grade = PInt 82, percentage = PFloat (Fin 82),
         feedback = PDict [(''total_score'', PInt 82)],
         issues = PList [], recommendations = PList [], strengths = PList [],
         processing_time = Fin (3 / 2), error_message = None \<rparr>\<close>
  using round_trip_82 float_of_int_82
  by (simp add: grade_response_def completed_simps percentage_default_def
      parse_json_result_dict [where d = "[(''total_score'', PInt 82)]"] decode_score_82)

theorem list_fields_never_none_witness:
  \<open>map_of (format_result (GradingResult_default ''s1'' ''max'' ''pass'' False)) ''issues''
     = Some (PList [])
   \<and> map_of (format_result (GradingResult_default ''s1'' ''max'' ''pass'' False)) ''recommendations''
     = Some (PList [])
   \<and> map_of (format_result (GradingResult_default ''s1'' ''max'' ''pass'' False)) ''strengths''
     = Some (PList [])
   \<and> (\<exists>r'. grade_response example_loads example_str ''s1'' ''max'' ''pass'' ''json''
              (completed ''{"total_score": 82}'') = Inr r'
          \<and> success r' \<and> issues r' = PList [] \<and> recommendations r' = PList []
          \<and> strengths r' = PList [])\<close>
  using list_fields_never_none [of "GradingResult_default ''s1'' ''max'' ''pass'' False"
      example_loads example_str "''s1''" "''max''" "''pass''"
      \<open>completed ''{"total_score": 82}''\<close>]
    json_score_82_result
  by (simp add: GradingResult_default_def)

text \<open>
  The claim as stated fails for the result of the engine: in the text format the three
  fields keep the default of the dataclass, \<open>None\<close>.
\<close>

lemma text_grade_75:
  "parse_text_result ''s1'' ''max'' ''pass'' (completed ''Grade: 75/100'') =
   \<lparr> student_id = ''s1'', problem = ''max'', code = ''pass'', success = True,
     grade = PFloat (Fin 75), percentage = PFloat (Fin 75),
     feedback = PDict [(''raw_text'', PStr ''Grade: 75/100'')],
     issues = PNone, recommendations = PNone, strengths = PNone,
     processing_time = Fin (3 / 2), error_message = None \<rparr>"
  by code_simp

theorem list_fields_never_none_counterexample:
  "grade_code (world_up ''Grade: 75/100'') example_loads example_str example_engine
     ''s1'' ''max'' ''pass'' ''comprehensive'' None () =
   (Inr \<lparr> student_id = ''s1'', problem = ''max'', code = ''pass'', success = True,
          grade = PFloat (Fin 75), percentage = PFloat (Fin 75),
          feedback = PDict [(''raw_text'', PStr ''Grade: 75/100'')],
          issues = PNone, recommendations = PNone, strengths = PNone,
          processing_time = Fin (3 / 2), error_message = None \<rparr>, ())"
  by (simp add: grade_code_world_up grade_response_def completed_simps text_grade_75)

section \<open>The grade of the text format\<close>















section \<open>The JSON extractor\<close>



























section \<open>Failures and faults\<close>









end
